theory Spec2Isabelle
  imports Main "HOL-Library.Sublist"
begin

section \<open>Values, exceptions and effects\<close>

text \<open>
  The module \<^verbatim>\<open>dhanhq/orderupdate.py\<close> defines one class, \<^verbatim>\<open>OrderUpdate\<close>, with four
  methods. This theory embeds them as HOL functions. Python values that the code handles
  are the values \<^verbatim>\<open>json.loads\<close> builds: \<^verbatim>\<open>None\<close>, booleans, integers, floats, strings,
  lists and dictionaries with string keys. A float is carried as the text of its literal,
  since the code never computes with one. A dictionary is an association list; \<open>map_of\<close>
  is its lookup.
\<close>

datatype pyval =
    PNone
  | PBool bool
  | PInt int
  | PFloat string
  | PStr string
  | PList "pyval list"
  | PDict "(string \<times> pyval) list"

text \<open>
  The exceptions that the code, the standard library and the \<^verbatim>\<open>websockets\<close> package can
  raise on the paths modelled here. \<open>UserError\<close> stands for an exception of the handler's
  own, a subclass of \<^verbatim>\<open>Exception\<close>. \<open>CancelledError\<close> is \<^verbatim>\<open>asyncio.CancelledError\<close>, which derives from
  \<^verbatim>\<open>BaseException\<close> and not from \<^verbatim>\<open>Exception\<close>.
\<close>

datatype exn =
    OSError string
  | ConnectionClosedError
  | CancelledError
  | JSONDecodeError
  | AttributeError
  | TypeError
  | KeyError
  | UserError string

fun is_Exception :: "exn \<Rightarrow> bool" where
  "is_Exception CancelledError = False"
| "is_Exception _ = True"

text \<open>The exceptions that report a failure of the network or of the connection.\<close>

fun is_transport_error :: "exn \<Rightarrow> bool" where
  "is_transport_error (OSError _) = True"
| "is_transport_error ConnectionClosedError = True"
| "is_transport_error _ = False"

datatype 'a outcome = Returned 'a | Raised exn

text \<open>
  Every \<^verbatim>\<open>print\<close> of the module is an f-string with a fixed template; an observation
  records which template and the values put into it.
\<close>

datatype observation =
    SentSubscribe pyval            \<comment> \<open>\<^verbatim>\<open>Sent subscribe message: {auth_message}\<close>\<close>
  | StatusLine pyval pyval pyval   \<comment> \<open>\<^verbatim>\<open>Status: {status}, Order ID: {order_id}, Data: {data}\<close>\<close>
  | OrderUpdateReceived pyval      \<comment> \<open>\<^verbatim>\<open>Order Update received: {data}\<close>\<close>
  | UnknownMessage pyval           \<comment> \<open>\<^verbatim>\<open>Unknown message received: {order_update}\<close>\<close>
  | ErrorInConnect exn             \<comment> \<open>\<^verbatim>\<open>Error in connect_to_dhan_websocket: {e}\<close>\<close>

text \<open>
  The effects of a run, in the order in which they happen: the connection is opened, a
  text frame is handed to \<^verbatim>\<open>websocket.send\<close>, the \<^verbatim>\<open>async for\<close> yields a frame, a line is
  printed, the handler is called, the connection is closed.
\<close>

datatype event =
    Opened string
  | Send string
  | Recv string
  | Printed observation
  | HandlerCalled pyval
  | Closed

type_synonym 'a run = "'a outcome \<times> event list"

section \<open>The class\<close>

text \<open>
  The slot \<^verbatim>\<open>on_update\<close> holds \<^verbatim>\<open>None\<close> or an object the caller assigned. Of such an
  object the code uses its truth value, whether it is callable, and what calling it on a
  message returns or raises. What the handler does besides is the caller's code and is
  not modelled; its call is recorded as one event.
\<close>

datatype slot =
    SlotNone
  | SlotObject bool "(pyval \<Rightarrow> pyval outcome) option"

fun truthy :: "slot \<Rightarrow> bool" where
  "truthy SlotNone = False"
| "truthy (SlotObject t c) = t"

fun callable :: "slot \<Rightarrow> bool" where
  "callable SlotNone = False"
| "callable (SlotObject t c) = (c \<noteq> None)"

record dhan_context =
  get_client_id :: string
  get_access_token :: string

record OrderUpdate =
  client_id :: string
  access_token :: string
  order_feed_wss :: string
  on_update :: slot

text \<open>
  \<^verbatim>\<open>__init__\<close> sets three attributes. \<^verbatim>\<open>on_update\<close> is a class attribute with value
  \<^verbatim>\<open>None\<close>, which a new instance reads until the caller assigns one.
\<close>

definition init :: "dhan_context \<Rightarrow> OrderUpdate" where
  "init ctx =
     \<lparr> client_id = get_client_id ctx,
       access_token = get_access_token ctx,
       order_feed_wss = ''wss://api-order-update.dhan.co'',
       on_update = SlotNone \<rparr>"

section \<open>Operations on values\<close>

text \<open>
  \<^verbatim>\<open>x.get(key, default)\<close>: only a dictionary has the method; on any other value the
  attribute lookup raises \<^verbatim>\<open>AttributeError\<close>. \<^verbatim>\<open>x.get(key)\<close> is \<open>py_get x key PNone\<close>.
\<close>

fun py_get :: "pyval \<Rightarrow> string \<Rightarrow> pyval \<Rightarrow> pyval outcome" where
  "py_get (PDict d) k dflt = Returned (case map_of d k of Some v \<Rightarrow> v | None \<Rightarrow> dflt)"
| "py_get _ k dflt = Raised AttributeError"

text \<open>
  \<^verbatim>\<open>key in x\<close> for a string \<^verbatim>\<open>key\<close>: a key of a dictionary, an element of a list, a
  substring of a string; any other value is not iterable and the test raises.
\<close>

fun py_in :: "string \<Rightarrow> pyval \<Rightarrow> bool outcome" where
  "py_in k (PDict d) = Returned (k \<in> fst ` set d)"
| "py_in k (PList xs) = Returned (PStr k \<in> set xs)"
| "py_in k (PStr s) = Returned (sublist k s)"
| "py_in k _ = Raised TypeError"

text \<open>
  \<^verbatim>\<open>x[key]\<close> for a string \<^verbatim>\<open>key\<close>: a dictionary returns the value or raises
  \<^verbatim>\<open>KeyError\<close>; a list or a string wants an integer index, and the other values have no
  subscript.
\<close>

fun py_getitem :: "pyval \<Rightarrow> string \<Rightarrow> pyval outcome" where
  "py_getitem (PDict d) k = (case map_of d k of Some v \<Rightarrow> Returned v | None \<Rightarrow> Raised KeyError)"
| "py_getitem _ k = Raised TypeError"

section \<open>The dispatcher\<close>

text \<open>
  Lines 73 to 79 of \<^verbatim>\<open>handle_order_update\<close>, the presentation of an order alert when no
  handler takes it:
  \<^verbatim>\<open>
    data = order_update.get('Data', {})
    if "orderNo" in data:
        order_id = data["orderNo"]
        status = data.get("status", "Unknown status")
        print(f"Status: {status}, Order ID: {order_id}, Data: {data}")
    else:
        print(f"Order Update received: {data}")
  \<close>
\<close>

definition default_presentation :: "pyval \<Rightarrow> pyval run" where
  "default_presentation order_update =
     (case py_get order_update ''Data'' (PDict []) of
        Raised e \<Rightarrow> (Raised e, [])
      | Returned data \<Rightarrow>
          (case py_in ''orderNo'' data of
             Raised e \<Rightarrow> (Raised e, [])
           | Returned True \<Rightarrow>
               (case py_getitem data ''orderNo'' of
                  Raised e \<Rightarrow> (Raised e, [])
                | Returned order_id \<Rightarrow>
                    (case py_get data ''status'' (PStr ''Unknown status'') of
                       Raised e \<Rightarrow> (Raised e, [])
                     | Returned status \<Rightarrow>
                         (Returned PNone, [Printed (StatusLine status order_id data)])))
           | Returned False \<Rightarrow>
               (Returned PNone, [Printed (OrderUpdateReceived data)])))"

text \<open>
  \<^verbatim>\<open>
    def handle_order_update(self, order_update):
        if order_update.get('Type') == 'order_alert':
            if self.on_update and callable(self.on_update):
                return self.on_update(order_update)
            (lines 73 to 79)
        else:
            print(f"Unknown message received: {order_update}")
  \<close>
\<close>

definition handle_order_update :: "OrderUpdate \<Rightarrow> pyval \<Rightarrow> pyval run" where
  "handle_order_update self order_update =
     (case py_get order_update ''Type'' PNone of
        Raised e \<Rightarrow> (Raised e, [])
      | Returned ty \<Rightarrow>
          if ty = PStr ''order_alert'' then
            (if truthy (on_update self) \<and> callable (on_update self) then
               (case on_update self of
                  SlotObject t (Some f) \<Rightarrow> (f order_update, [HandlerCalled order_update])
                | _ \<Rightarrow> (Raised TypeError, []))
             else default_presentation order_update)
          else (Returned PNone, [Printed (UnknownMessage order_update)]))"

section \<open>The session\<close>

text \<open>
  What the network does during one session is the input of the model: whether
  \<^verbatim>\<open>websockets.connect\<close> succeeds, whether the \<^verbatim>\<open>send\<close> succeeds, the text frames that the
  iteration yields, and how the iteration ends: with \<open>None\<close> the server closed the
  connection in the normal way and the loop ends, with \<open>Some e\<close> the wait for the next
  frame raises \<open>e\<close>. A cancellation of the task arrives as \<open>CancelledError\<close> at one of
  these three waits.
\<close>

record transport =
  connect_result :: "exn option"
  send_result :: "exn option"
  frames :: "string list"
  stream_end :: "exn option"

text \<open>
  \<^verbatim>\<open>json.dumps\<close> and \<^verbatim>\<open>json.loads\<close> belong to the standard library and are parameters:
  \<open>loads\<close> returns \<open>None\<close> where \<^verbatim>\<open>json.loads\<close> raises \<^verbatim>\<open>JSONDecodeError\<close>.
\<close>

record json_module =
  dumps :: "pyval \<Rightarrow> string"
  loads :: "string \<Rightarrow> pyval option"

text \<open>
  The dictionary built at lines 46 to 53. Both attributes are strings, on which \<^verbatim>\<open>str\<close>
  is the identity.
\<close>

definition auth_message :: "OrderUpdate \<Rightarrow> pyval" where
  "auth_message self =
     PDict [(''LoginReq'',
               PDict [(''MsgCode'', PInt 42),
                      (''ClientId'', PStr (client_id self)),
                      (''Token'', PStr (access_token self))]),
            (''UserType'', PStr ''SELF'')]"

text \<open>
  The loop of lines 58 to 60:
  \<^verbatim>\<open>
    async for message in websocket:
        data = json.loads(message)
        self.handle_order_update(data)
  \<close>
  The value that \<^verbatim>\<open>handle_order_update\<close> returns is dropped; an exception leaves the loop.
\<close>

fun dispatch_loop :: "json_module \<Rightarrow> OrderUpdate \<Rightarrow> string list \<Rightarrow> exn option \<Rightarrow> unit run" where
  "dispatch_loop js self [] fin =
     (case fin of None \<Rightarrow> (Returned (), []) | Some e \<Rightarrow> (Raised e, []))"
| "dispatch_loop js self (message # rest) fin =
     (case loads js message of
        None \<Rightarrow> (Raised JSONDecodeError, [Recv message])
      | Some data \<Rightarrow>
          (case handle_order_update self data of
             (Raised e, evs) \<Rightarrow> (Raised e, Recv message # evs)
           | (Returned r, evs) \<Rightarrow>
               (case dispatch_loop js self rest fin of
                  (res, evs') \<Rightarrow> (res, Recv message # evs @ evs'))))"

text \<open>The body of the \<^verbatim>\<open>async with\<close> block, lines 46 to 60.\<close>

definition session_body :: "json_module \<Rightarrow> OrderUpdate \<Rightarrow> transport \<Rightarrow> unit run" where
  "session_body js self net =
     (case send_result net of
        Some e \<Rightarrow> (Raised e, [Send (dumps js (auth_message self))])
      | None \<Rightarrow>
          (case dispatch_loop js self (frames net) (stream_end net) of
             (res, evs) \<Rightarrow>
               (res, Send (dumps js (auth_message self))
                       # Printed (SentSubscribe (auth_message self)) # evs)))"

text \<open>
  \<^verbatim>\<open>connect_order_update\<close>. When \<^verbatim>\<open>websockets.connect\<close> raises there is no connection and
  the block is not entered. Otherwise the context manager closes the connection when the
  block is left, by its end or by an exception, and an exception goes on to the caller.
\<close>

definition connect_order_update :: "json_module \<Rightarrow> OrderUpdate \<Rightarrow> transport \<Rightarrow> unit run" where
  "connect_order_update js self net =
     (case connect_result net of
        Some e \<Rightarrow> (Raised e, [])
      | None \<Rightarrow>
          (case session_body js self net of
             (res, evs) \<Rightarrow> (res, Opened (order_feed_wss self) # evs @ [Closed])))"

text \<open>
  \<^verbatim>\<open>connect_order_update\<close> is declared \<^verbatim>\<open>async def\<close>: calling it runs none of its body and
  returns a coroutine object, which holds the call until somebody awaits it or gives it
  to an event loop. \<open>run_coroutine\<close> is that later step.
\<close>

datatype coroutine = Coroutine OrderUpdate

definition call_connect_order_update :: "OrderUpdate \<Rightarrow> coroutine run" where
  "call_connect_order_update self = (Returned (Coroutine self), [])"

fun run_coroutine :: "json_module \<Rightarrow> coroutine \<Rightarrow> transport \<Rightarrow> unit run" where
  "run_coroutine js (Coroutine self) net = connect_order_update js self net"

text \<open>
  \<^verbatim>\<open>
    def connect_to_dhan_websocket_sync(self):
        try:
            return self.connect_order_update()
        except Exception as e:
            print(f"Error in connect_to_dhan_websocket: {e}")
  \<close>
  The method returns the coroutine object, or \<^verbatim>\<open>None\<close> after the \<^verbatim>\<open>except\<close> clause.
\<close>

definition connect_to_dhan_websocket_sync :: "OrderUpdate \<Rightarrow> coroutine option run" where
  "connect_to_dhan_websocket_sync self =
     (case call_connect_order_update self of
        (Returned c, evs) \<Rightarrow> (Returned (Some c), evs)
      | (Raised e, evs) \<Rightarrow>
          if is_Exception e then (Returned None, evs @ [Printed (ErrorInConnect e)])
          else (Raised e, evs))"

section \<open>Reading a log of events\<close>

fun is_Send :: "event \<Rightarrow> bool" where
  "is_Send (Send s) = True"
| "is_Send _ = False"

fun is_Recv :: "event \<Rightarrow> bool" where
  "is_Recv (Recv s) = True"
| "is_Recv _ = False"

text \<open>An event of the dispatcher: a printed observation or a call of the handler.\<close>

fun is_dispatch :: "event \<Rightarrow> bool" where
  "is_dispatch (Printed ob) = True"
| "is_dispatch (HandlerCalled m) = True"
| "is_dispatch _ = False"

text \<open>Whether the connection is open after the events of a log.\<close>

fun connection_open :: "event list \<Rightarrow> bool \<Rightarrow> bool" where
  "connection_open [] b = b"
| "connection_open (Opened u # evs) b = connection_open evs True"
| "connection_open (Closed # evs) b = connection_open evs False"
| "connection_open (ev # evs) b = connection_open evs b"

text \<open>A frame that the loop takes without an exception: it parses and its dispatch returns.\<close>

definition frame_ok :: "json_module \<Rightarrow> OrderUpdate \<Rightarrow> string \<Rightarrow> bool" where
  "frame_ok js self message =
     (case loads js message of
        None \<Rightarrow> False
      | Some data \<Rightarrow> (case fst (handle_order_update self data) of Returned r \<Rightarrow> True | Raised e \<Rightarrow> False))"

text \<open>The events of one turn of the loop on a frame.\<close>

definition frame_events :: "json_module \<Rightarrow> OrderUpdate \<Rightarrow> string \<Rightarrow> event list" where
  "frame_events js self message =
     Recv message #
       (case loads js message of None \<Rightarrow> [] | Some data \<Rightarrow> snd (handle_order_update self data))"


section \<open>Sample values\<close>

text \<open>
  A client, frames and networks on which the theorems below are instantiated. The sample
  decoder knows three frames and rejects every other text, as \<^verbatim>\<open>json.loads\<close> rejects
  text that is not JSON.
\<close>

definition demo_data :: "(string \<times> pyval) list" where
  "demo_data = [(''orderNo'', PStr ''112111182045''), (''status'', PStr ''TRADED'')]"

definition demo_alert :: "(string \<times> pyval) list" where
  "demo_alert = [(''Type'', PStr ''order_alert''), (''Data'', PDict demo_data)]"

definition demo_heartbeat :: "(string \<times> pyval) list" where
  "demo_heartbeat = [(''Type'', PStr ''heartbeat'')]"

definition demo_bare :: "(string \<times> pyval) list" where
  "demo_bare = [(''Type'', PStr ''order_alert'')]"

definition demo_json :: json_module where
  "demo_json =
     \<lparr> dumps = (\<lambda>v. ''login''),
       loads = (\<lambda>s.
         if s = ''heartbeat'' then Some (PDict demo_heartbeat)
         else if s = ''traded'' then Some (PDict demo_alert)
         else if s = ''array'' then Some (PList [])
         else None) \<rparr>"

definition demo_context :: dhan_context where
  "demo_context = \<lparr> get_client_id = ''1100003626'', get_access_token = ''eyJhbGc'' \<rparr>"

definition demo_client :: OrderUpdate where
  "demo_client = init demo_context"

definition demo_handler :: "pyval \<Rightarrow> pyval outcome" where
  "demo_handler m = Returned (PList [m])"

definition demo_listener :: OrderUpdate where
  "demo_listener = demo_client\<lparr>on_update := SlotObject True (Some demo_handler)\<rparr>"

text \<open>
  A registered callable whose truth value is false, such as an instance of a class that
  defines \<^verbatim>\<open>__call__\<close> and an empty \<^verbatim>\<open>__len__\<close>.
\<close>

definition demo_falsy_listener :: OrderUpdate where
  "demo_falsy_listener = demo_client\<lparr>on_update := SlotObject False (Some demo_handler)\<rparr>"

definition demo_net :: transport where
  "demo_net =
     \<lparr> connect_result = None, send_result = None,
       frames = [''heartbeat'', ''traded''], stream_end = None \<rparr>"

definition demo_broken :: transport where
  "demo_broken =
     \<lparr> connect_result = None, send_result = None,
       frames = [''heartbeat'', ''junk'', ''traded''], stream_end = None \<rparr>"

definition demo_cancelled :: transport where
  "demo_cancelled =
     \<lparr> connect_result = None, send_result = None,
       frames = [''heartbeat''], stream_end = Some CancelledError \<rparr>"

definition demo_refused :: transport where
  "demo_refused =
     \<lparr> connect_result = Some (OSError ''connection refused''), send_result = None,
       frames = [], stream_end = None \<rparr>"


section \<open>Facts about the dispatcher and the loop\<close>

text \<open>
  The dispatcher only prints and calls the handler, and when it returns it has done
  exactly one of the two.
\<close>

lemma handle_events_dispatch:
  "ev \<in> set (snd (handle_order_update self x)) \<Longrightarrow> is_dispatch ev"
  by (auto simp: handle_order_update_def default_presentation_def
           split: outcome.splits bool.splits slot.splits option.splits if_splits)

lemma handle_returned_one_event:
  "fst (handle_order_update self x) = Returned r \<Longrightarrow>
   \<exists>ev. snd (handle_order_update self x) = [ev]"
  by (auto simp: handle_order_update_def default_presentation_def
           split: outcome.splits bool.splits slot.splits option.splits if_splits)

lemma dispatch_loop_events:
  "\<forall>m\<in>set ms. frame_ok js self m \<Longrightarrow>
   snd (dispatch_loop js self ms fin) = concat (map (frame_events js self) ms)"
proof (induction ms)
  case Nil
  show ?case by (simp split: option.splits)
next
  case (Cons m ms)
  from Cons.prems have ok: "frame_ok js self m" and rest: "\<forall>x\<in>set ms. frame_ok js self x"
    by simp_all
  from ok obtain data r evs where
    d: "loads js m = Some data" and h: "handle_order_update self data = (Returned r, evs)"
    by (auto simp: frame_ok_def split: option.splits outcome.splits prod.splits
             intro: prod.exhaust) (metis prod.collapse)
  show ?case using Cons.IH [OF rest] d h
    by (auto simp: frame_events_def split: prod.splits)
qed

lemma dispatch_loop_event_kinds:
  "ev \<in> set (snd (dispatch_loop js self ms fin)) \<Longrightarrow> is_Recv ev \<or> is_dispatch ev"
proof (induction ms)
  case Nil
  then show ?case by (simp split: option.splits)
next
  case (Cons m ms)
  show ?case
  proof (cases "loads js m")
    case None
    with Cons.prems show ?thesis by auto
  next
    case (Some data)
    obtain res evs where h: "handle_order_update self data = (res, evs)"
      by (cases "handle_order_update self data")
    have evs: "\<And>e. e \<in> set evs \<Longrightarrow> is_dispatch e"
      using handle_events_dispatch [of _ self data] h by simp
    show ?thesis
    proof (cases res)
      case (Raised e)
      with Cons.prems Some h evs show ?thesis by auto
    next
      case (Returned r)
      with Cons.prems Some h evs Cons.IH show ?thesis
        by (auto split: prod.splits)
    qed
  qed
qed

lemma inner_event_kinds:
  "is_Recv ev \<or> is_dispatch ev \<Longrightarrow>
   \<not> is_Send ev \<and> ev \<noteq> Closed \<and> (\<forall>u. ev \<noteq> Opened u)"
  by (cases ev) simp_all

lemma frame_events_dispatch:
  "frame_ok js self m \<Longrightarrow> \<exists>ev. filter is_dispatch (frame_events js self m) = [ev]"
proof -
  assume ok: "frame_ok js self m"
  then obtain data r where
    d: "loads js m = Some data" and h: "fst (handle_order_update self data) = Returned r"
    by (auto simp: frame_ok_def split: option.splits outcome.splits)
  from handle_returned_one_event [OF h] obtain ev where
    one: "snd (handle_order_update self data) = [ev]" by blast
  have "is_dispatch ev"
    using handle_events_dispatch [of ev self data] one by simp
  with d one show ?thesis by (simp add: frame_events_def)
qed

lemma frame_events_recv:
  "filter is_Recv (frame_events js self m) = [Recv m]"
proof -
  have "\<And>data. filter is_Recv (snd (handle_order_update self data)) = []"
  proof -
    fix data
    have "\<And>ev. ev \<in> set (snd (handle_order_update self data)) \<Longrightarrow> \<not> is_Recv ev"
      using handle_events_dispatch [of _ self data]
      by (metis is_Recv.elims(2) is_dispatch.simps(5))
    then show "filter is_Recv (snd (handle_order_update self data)) = []"
      by (simp add: filter_empty_conv)
  qed
  then show ?thesis by (simp add: frame_events_def split: option.splits)
qed

lemma concat_single_length:
  "\<forall>x\<in>set xs. \<exists>e. filter P (f x) = [e] \<Longrightarrow>
   length (filter P (concat (map f xs))) = length xs"
  by (induction xs) auto

lemma frame_ok_unfold:
  assumes "frame_ok js self m"
  obtains data r evs where "loads js m = Some data"
    and "handle_order_update self data = (Returned r, evs)"
    and "frame_events js self m = Recv m # evs"
proof -
  from assms obtain data r where
    d: "loads js m = Some data" and h: "fst (handle_order_update self data) = Returned r"
    by (auto simp: frame_ok_def split: option.splits outcome.splits)
  from h have "handle_order_update self data = (Returned r, snd (handle_order_update self data))"
    by (metis prod.collapse)
  moreover from d have "frame_events js self m = Recv m # snd (handle_order_update self data)"
    by (simp add: frame_events_def)
  ultimately show thesis using d that by blast
qed

lemma dispatch_loop_malformed:
  "\<forall>x\<in>set pre. frame_ok js self x \<Longrightarrow> loads js m = None \<Longrightarrow>
   dispatch_loop js self (pre @ m # post) fin =
     (Raised JSONDecodeError, concat (map (frame_events js self) pre) @ [Recv m])"
proof (induction pre)
  case Nil
  then show ?case by simp
next
  case (Cons p pre)
  from Cons.prems have ok: "frame_ok js self p" by simp
  from ok obtain data r evs where
    d: "loads js p = Some data" and h: "handle_order_update self data = (Returned r, evs)"
    and fe: "frame_events js self p = Recv p # evs"
    by (rule frame_ok_unfold)
  from Cons.IH Cons.prems have
    "dispatch_loop js self (pre @ m # post) fin =
       (Raised JSONDecodeError, concat (map (frame_events js self) pre) @ [Recv m])"
    by simp
  with d h fe show ?case by simp
qed

lemma session_body_events:
  "\<exists>rest. snd (session_body js self net) = Send (dumps js (auth_message self)) # rest
      \<and> (\<forall>ev\<in>set rest. \<not> is_Send ev \<and> ev \<noteq> Closed \<and> (\<forall>u. ev \<noteq> Opened u))"
proof (cases "send_result net")
  case (Some e)
  then show ?thesis by (simp add: session_body_def)
next
  case None
  obtain res evs where l: "dispatch_loop js self (frames net) (stream_end net) = (res, evs)"
    by (cases "dispatch_loop js self (frames net) (stream_end net)")
  have "\<forall>ev\<in>set evs. \<not> is_Send ev \<and> ev \<noteq> Closed \<and> (\<forall>u. ev \<noteq> Opened u)"
    using dispatch_loop_event_kinds [of _ js self "frames net" "stream_end net"] l
      inner_event_kinds by auto
  with None l show ?thesis by (simp add: session_body_def)
qed

lemma connection_open_inner:
  "\<forall>ev\<in>set mid. ev \<noteq> Closed \<and> (\<forall>u. ev \<noteq> Opened u) \<Longrightarrow>
   connection_open (mid @ evs) b = connection_open evs b"
proof (induction mid)
  case Nil
  show ?case by simp
next
  case (Cons ev mid)
  then show ?case by (cases ev) simp_all
qed

lemma connect_order_update_events:
  assumes "connect_result net = None"
  shows "\<exists>rest. snd (connect_order_update js self net)
            = Opened (order_feed_wss self) # Send (dumps js (auth_message self)) # rest @ [Closed]
      \<and> (\<forall>ev\<in>set rest. \<not> is_Send ev \<and> ev \<noteq> Closed \<and> (\<forall>u. ev \<noteq> Opened u))"
proof -
  from session_body_events [of js self net] obtain rest where
    r: "snd (session_body js self net) = Send (dumps js (auth_message self)) # rest"
    and k: "\<forall>ev\<in>set rest. \<not> is_Send ev \<and> ev \<noteq> Closed \<and> (\<forall>u. ev \<noteq> Opened u)"
    by blast
  from assms r have "snd (connect_order_update js self net)
      = Opened (order_feed_wss self) # Send (dumps js (auth_message self)) # rest @ [Closed]"
    by (auto simp: connect_order_update_def split: prod.splits)
  with k show ?thesis by blast
qed


section \<open>The entry point\<close>

text \<open>
  C1. The claim: every error raised in the handshake or in the dispatch is caught by
  \<^verbatim>\<open>connect_to_dhan_websocket_sync\<close> and reported there, never raised past it. The
  method does not run the session: the call inside its \<^verbatim>\<open>try\<close> only builds the coroutine
  object, so the method returns that object and prints nothing, whatever the network
  does. On a network that refuses the connection, the error appears when the caller runs
  the coroutine, and it reaches the caller unreported.
\<close>

theorem sync_entry_returns_unstarted_coroutine:
  "connect_to_dhan_websocket_sync demo_client = (Returned (Some (Coroutine demo_client)), [])
   \<and> run_coroutine demo_json (Coroutine demo_client) demo_refused
       = (Raised (OSError ''connection refused''), [])"
  by (simp add: connect_to_dhan_websocket_sync_def call_connect_order_update_def
        connect_order_update_def demo_refused_def)

section \<open>Routing of one frame\<close>

text \<open>
  C2, amended. For a frame whose \<^verbatim>\<open>Type\<close> is \<^verbatim>\<open>order_alert\<close>, when the slot holds a
  callable object that counts as true (as every function does): the handler is called
  once, on the whole decoded frame, the dispatcher returns what the handler returns or
  raises what it raises, and nothing is printed.
\<close>

theorem handler_gets_order_alert:
  assumes "map_of d ''Type'' = Some (PStr ''order_alert'')"
    and "on_update self = SlotObject True (Some f)"
  shows "handle_order_update self (PDict d) = (f (PDict d), [HandlerCalled (PDict d)])"
  using assms by (simp add: handle_order_update_def)

theorem handler_gets_order_alert_witness:
  "map_of demo_alert ''Type'' = Some (PStr ''order_alert'')
   \<and> handle_order_update demo_listener (PDict demo_alert)
       = (Returned (PList [PDict demo_alert]), [HandlerCalled (PDict demo_alert)])"
proof -
  have t: "map_of demo_alert ''Type'' = Some (PStr ''order_alert'')"
    by (simp add: demo_alert_def)
  have s: "on_update demo_listener = SlotObject True (Some demo_handler)"
    by (simp add: demo_listener_def)
  show ?thesis using t handler_gets_order_alert [OF t s] by (simp add: demo_handler_def)
qed

text \<open>
  The truth value matters: line 70 tests \<^verbatim>\<open>self.on_update and callable(self.on_update)\<close>.
  A callable in the slot that counts as false is passed over, and the frame gets the
  default status line instead of a call of the handler.
\<close>

theorem falsy_handler_counterexample:
  "callable (on_update demo_falsy_listener)
   \<and> handle_order_update demo_falsy_listener (PDict demo_alert)
       = (Returned PNone,
          [Printed (StatusLine (PStr ''TRADED'') (PStr ''112111182045'') (PDict demo_data))])
   \<and> snd (handle_order_update demo_falsy_listener (PDict demo_alert))
       \<noteq> [HandlerCalled (PDict demo_alert)]"
  by (simp add: handle_order_update_def default_presentation_def demo_falsy_listener_def
        demo_alert_def demo_data_def)

text \<open>
  C4, amended. For a frame that decodes to a JSON object whose \<^verbatim>\<open>Type\<close> is absent or is
  not \<^verbatim>\<open>order_alert\<close>: the dispatcher prints the unknown-message line with the decoded
  frame, returns \<^verbatim>\<open>None\<close>, and does not call the handler, whatever the slot holds.
\<close>

theorem unknown_message_observed:
  assumes "map_of d ''Type'' \<noteq> Some (PStr ''order_alert'')"
  shows "handle_order_update self (PDict d) =
           (Returned PNone, [Printed (UnknownMessage (PDict d))])"
  using assms by (auto simp: handle_order_update_def split: option.splits)

theorem unknown_message_observed_witness:
  "map_of demo_heartbeat ''Type'' \<noteq> Some (PStr ''order_alert'')
   \<and> handle_order_update demo_listener (PDict demo_heartbeat)
       = (Returned PNone, [Printed (UnknownMessage (PDict demo_heartbeat))])"
proof -
  have t: "map_of demo_heartbeat ''Type'' \<noteq> Some (PStr ''order_alert'')"
    by (simp add: demo_heartbeat_def)
  show ?thesis using t unknown_message_observed [OF t, of demo_listener] by simp
qed

text \<open>
  The frame has to be an object. A frame that decodes to an array has no \<^verbatim>\<open>Type\<close>, and
  on it \<^verbatim>\<open>order_update.get\<close> raises \<^verbatim>\<open>AttributeError\<close>: nothing is printed.
\<close>

theorem array_frame_counterexample:
  "handle_order_update demo_client (PList []) = (Raised AttributeError, [])
   \<and> snd (handle_order_update demo_client (PList [])) \<noteq> [Printed (UnknownMessage (PList []))]"
  by (simp add: handle_order_update_def)

text \<open>
  C5. For a frame whose \<^verbatim>\<open>Type\<close> is \<^verbatim>\<open>order_alert\<close>, with no handler in the slot and a
  \<^verbatim>\<open>Data\<close> object that has the key \<^verbatim>\<open>orderNo\<close>: the dispatcher prints the status line, whose
  order identifier is the value of \<^verbatim>\<open>orderNo\<close>, whose status is the value of \<^verbatim>\<open>status\<close> when
  \<^verbatim>\<open>Data\<close> has that key and the text \<^verbatim>\<open>Unknown status\<close> otherwise, and which carries the
  whole \<^verbatim>\<open>Data\<close> object.
\<close>

theorem status_line_observed:
  assumes "map_of d ''Type'' = Some (PStr ''order_alert'')"
    and "on_update self = SlotNone"
    and "map_of d ''Data'' = Some (PDict dd)"
    and "map_of dd ''orderNo'' = Some order_id"
  shows "handle_order_update self (PDict d) =
           (Returned PNone,
            [Printed (StatusLine
               (case map_of dd ''status'' of Some s \<Rightarrow> s | None \<Rightarrow> PStr ''Unknown status'')
               order_id (PDict dd))])"
proof -
  from assms(4) have "''orderNo'' \<in> fst ` set dd"
    by (metis map_of_eq_None_iff option.distinct(1))
  with assms show ?thesis
    by (simp add: handle_order_update_def default_presentation_def)
qed

theorem status_line_observed_witness:
  "map_of demo_alert ''Data'' = Some (PDict demo_data)
   \<and> map_of demo_data ''orderNo'' = Some (PStr ''112111182045'')
   \<and> handle_order_update demo_client (PDict demo_alert)
       = (Returned PNone,
          [Printed (StatusLine (PStr ''TRADED'') (PStr ''112111182045'') (PDict demo_data))])"
proof -
  have t: "map_of demo_alert ''Type'' = Some (PStr ''order_alert'')"
    by (simp add: demo_alert_def)
  have s: "on_update demo_client = SlotNone"
    by (simp add: demo_client_def init_def)
  have d: "map_of demo_alert ''Data'' = Some (PDict demo_data)"
    by (simp add: demo_alert_def)
  have n: "map_of demo_data ''orderNo'' = Some (PStr ''112111182045'')"
    by (simp add: demo_data_def)
  have st: "map_of demo_data ''status'' = Some (PStr ''TRADED'')"
    by (simp add: demo_data_def)
  show ?thesis using d n st status_line_observed [OF t s d n] by simp
qed

text \<open>
  C9, amended. For a frame whose \<^verbatim>\<open>Type\<close> is \<^verbatim>\<open>order_alert\<close>, with no handler in the slot:
  when the frame has no \<^verbatim>\<open>Data\<close> key, or its \<^verbatim>\<open>Data\<close> is an object without the key
  \<^verbatim>\<open>orderNo\<close>, an array without the element \<^verbatim>\<open>orderNo\<close> or a string in which \<^verbatim>\<open>orderNo\<close>
  does not occur, the dispatcher does not raise. An absent \<^verbatim>\<open>Data\<close> is replaced by the
  empty dictionary, and the generic line is printed with that payload.
\<close>

theorem generic_observation_without_order_number:
  assumes "map_of d ''Type'' = Some (PStr ''order_alert'')"
    and "on_update self = SlotNone"
    and "data = (case map_of d ''Data'' of Some v \<Rightarrow> v | None \<Rightarrow> PDict [])"
    and "(\<exists>dd. data = PDict dd \<and> map_of dd ''orderNo'' = None)
       \<or> (\<exists>xs. data = PList xs \<and> PStr ''orderNo'' \<notin> set xs)
       \<or> (\<exists>s. data = PStr s \<and> \<not> sublist ''orderNo'' s)"
  shows "handle_order_update self (PDict d) =
           (Returned PNone, [Printed (OrderUpdateReceived data)])"
proof -
  from assms(4) have "py_in ''orderNo'' data = Returned False"
    by (auto simp: map_of_eq_None_iff)
  moreover from assms(3) have "py_get (PDict d) ''Data'' (PDict []) = Returned data"
    by simp
  ultimately show ?thesis using assms(1,2)
    by (simp add: handle_order_update_def default_presentation_def)
qed

theorem generic_observation_without_order_number_witness:
  "map_of demo_bare ''Data'' = None
   \<and> handle_order_update demo_client (PDict demo_bare)
       = (Returned PNone, [Printed (OrderUpdateReceived (PDict []))])"
proof -
  have t: "map_of demo_bare ''Type'' = Some (PStr ''order_alert'')"
    by (simp add: demo_bare_def)
  have s: "on_update demo_client = SlotNone"
    by (simp add: demo_client_def init_def)
  have d: "map_of demo_bare ''Data'' = None"
    by (simp add: demo_bare_def)
  show ?thesis
    using d generic_observation_without_order_number [OF t s, of "PDict []"] by simp
qed

text \<open>
  A \<^verbatim>\<open>Data\<close> that is \<^verbatim>\<open>null\<close> lacks \<^verbatim>\<open>orderNo\<close> too, but the membership test on \<^verbatim>\<open>None\<close>
  raises \<^verbatim>\<open>TypeError\<close>.
\<close>

theorem null_data_counterexample:
  "handle_order_update demo_client
     (PDict [(''Type'', PStr ''order_alert''), (''Data'', PNone)]) = (Raised TypeError, [])"
  by (simp add: handle_order_update_def default_presentation_def demo_client_def init_def)

text \<open>
  C10. A new instance has \<^verbatim>\<open>None\<close> in the slot, and on it a frame whose \<^verbatim>\<open>Type\<close> is
  \<^verbatim>\<open>order_alert\<close> goes through the default presentation. The same holds when the slot
  holds an object that is not callable. The default presentation never calls a handler.
\<close>

theorem unset_or_uncallable_slot_ignored:
  assumes "map_of d ''Type'' = Some (PStr ''order_alert'')"
  shows "on_update (init ctx) = SlotNone
     \<and> handle_order_update (init ctx) (PDict d) = default_presentation (PDict d)
     \<and> handle_order_update (self\<lparr>on_update := SlotObject t None\<rparr>) (PDict d)
           = default_presentation (PDict d)
     \<and> (\<forall>m. HandlerCalled m \<notin> set (snd (default_presentation (PDict d))))"
  using assms
  by (auto simp: handle_order_update_def init_def default_presentation_def
           split: outcome.splits bool.splits option.splits)

theorem unset_or_uncallable_slot_ignored_witness:
  "map_of demo_alert ''Type'' = Some (PStr ''order_alert'')
   \<and> on_update (init demo_context) = SlotNone
   \<and> handle_order_update (init demo_context) (PDict demo_alert)
       = default_presentation (PDict demo_alert)
   \<and> handle_order_update (demo_client\<lparr>on_update := SlotObject True None\<rparr>) (PDict demo_alert)
       = default_presentation (PDict demo_alert)"
proof -
  have t: "map_of demo_alert ''Type'' = Some (PStr ''order_alert'')"
    by (simp add: demo_alert_def)
  show ?thesis
    using t unset_or_uncallable_slot_ignored
      [where ctx = demo_context and self = demo_client and t = True, OF t]
    by simp
qed

section \<open>The session\<close>

text \<open>
  C3. Once the connection is open, the session hands exactly one frame to
  \<^verbatim>\<open>websocket.send\<close>: the serialization of the login request with message code 42, the
  client identifier and the access token as they are, and user type \<^verbatim>\<open>SELF\<close>. Before that
  send only the opening of the connection has happened, so no inbound frame has been
  taken.
\<close>

theorem one_login_frame_first:
  assumes "connect_result net = None"
  shows "filter is_Send (snd (connect_order_update js self net)) =
           [Send (dumps js
              (PDict [(''LoginReq'',
                         PDict [(''MsgCode'', PInt 42),
                                (''ClientId'', PStr (client_id self)),
                                (''Token'', PStr (access_token self))]),
                      (''UserType'', PStr ''SELF'')]))]
     \<and> takeWhile (\<lambda>ev. \<not> is_Send ev) (snd (connect_order_update js self net))
           = [Opened (order_feed_wss self)]"
proof -
  from connect_order_update_events [OF assms, of js self] obtain rest where
    r: "snd (connect_order_update js self net)
          = Opened (order_feed_wss self) # Send (dumps js (auth_message self)) # rest @ [Closed]"
    and k: "\<forall>ev\<in>set rest. \<not> is_Send ev \<and> ev \<noteq> Closed \<and> (\<forall>u. ev \<noteq> Opened u)"
    by blast
  from k have "filter is_Send rest = []" by (simp add: filter_empty_conv)
  with r show ?thesis by (simp add: auth_message_def)
qed

theorem one_login_frame_first_witness:
  "connect_result demo_net = None
   \<and> filter is_Send (snd (connect_order_update demo_json demo_client demo_net)) =
       [Send (dumps demo_json
          (PDict [(''LoginReq'',
                     PDict [(''MsgCode'', PInt 42),
                            (''ClientId'', PStr ''1100003626''),
                            (''Token'', PStr ''eyJhbGc'')]),
                  (''UserType'', PStr ''SELF'')]))]
   \<and> takeWhile (\<lambda>ev. \<not> is_Send ev) (snd (connect_order_update demo_json demo_client demo_net))
       = [Opened ''wss://api-order-update.dhan.co'']"
proof -
  have c: "connect_result demo_net = None"
    by (simp add: demo_net_def)
  have i: "client_id demo_client = ''1100003626''"
    and a: "access_token demo_client = ''eyJhbGc''"
    and u: "order_feed_wss demo_client = ''wss://api-order-update.dhan.co''"
    by (simp_all add: demo_client_def demo_context_def init_def)
  show ?thesis
    using c one_login_frame_first [OF c, of demo_json demo_client] by (simp add: i a u)
qed

text \<open>
  C6, amended. For a sequence of frames each of which parses and is dispatched without
  an exception, the events of the loop are the events of the single frames, one frame
  after the other in the order of arrival; every frame contributes exactly one printed
  line or handler call, so there are as many of them as frames, and the frames are taken
  in the order given.
\<close>

theorem one_dispatch_per_frame_in_order:
  assumes "\<forall>m\<in>set ms. frame_ok js self m"
  shows "snd (dispatch_loop js self ms fin) = concat (map (frame_events js self) ms)
     \<and> (\<forall>m\<in>set ms. \<exists>ev. filter is_dispatch (frame_events js self m) = [ev])
     \<and> length (filter is_dispatch (snd (dispatch_loop js self ms fin))) = length ms
     \<and> filter is_Recv (snd (dispatch_loop js self ms fin)) = map Recv ms"
proof -
  have a: "snd (dispatch_loop js self ms fin) = concat (map (frame_events js self) ms)"
    using assms by (rule dispatch_loop_events)
  have b: "\<forall>m\<in>set ms. \<exists>ev. filter is_dispatch (frame_events js self m) = [ev]"
    using assms frame_events_dispatch by blast
  have c: "length (filter is_dispatch (concat (map (frame_events js self) ms))) = length ms"
    using b by (rule concat_single_length)
  have d: "filter is_Recv (concat (map (frame_events js self) ms)) = map Recv ms"
    by (induction ms) (simp_all add: frame_events_recv)
  from a b c d show ?thesis by simp
qed

theorem one_dispatch_per_frame_in_order_witness:
  "frame_ok demo_json demo_client ''heartbeat''
   \<and> frame_ok demo_json demo_client ''traded''
   \<and> length (filter is_dispatch
        (snd (dispatch_loop demo_json demo_client [''heartbeat'', ''traded'', ''heartbeat''] None)))
       = 3
   \<and> filter is_Recv
        (snd (dispatch_loop demo_json demo_client [''heartbeat'', ''traded'', ''heartbeat''] None))
       = [Recv ''heartbeat'', Recv ''traded'', Recv ''heartbeat'']"
proof -
  have h: "frame_ok demo_json demo_client ''heartbeat''"
    by (simp add: frame_ok_def demo_json_def demo_heartbeat_def handle_order_update_def)
  have t: "frame_ok demo_json demo_client ''traded''"
    by (simp add: frame_ok_def demo_json_def demo_alert_def demo_data_def
          handle_order_update_def default_presentation_def demo_client_def init_def)
  have ok: "\<forall>m\<in>set [''heartbeat'', ''traded'', ''heartbeat'']. frame_ok demo_json demo_client m"
    using h t by simp
  have r: "length (filter is_dispatch
             (snd (dispatch_loop demo_json demo_client [''heartbeat'', ''traded'', ''heartbeat''] None)))
            = length [''heartbeat'', ''traded'', ''heartbeat'']
     \<and> filter is_Recv
          (snd (dispatch_loop demo_json demo_client [''heartbeat'', ''traded'', ''heartbeat''] None))
         = map Recv [''heartbeat'', ''traded'', ''heartbeat'']"
    using one_dispatch_per_frame_in_order [OF ok, of None] by blast
  have n: "length [''heartbeat'', ''traded'', ''heartbeat''] = 3"
    and m: "map Recv [''heartbeat'', ''traded'', ''heartbeat'']
            = [Recv ''heartbeat'', Recv ''traded'', Recv ''heartbeat'']"
    by simp_all
  from h t r show ?thesis unfolding n m by blast
qed

text \<open>
  Without the condition the count fails: a frame that does not parse ends the loop, and
  neither it nor the frame after it produces an observation.
\<close>

theorem malformed_frame_counterexample:
  "dispatch_loop demo_json demo_client [''junk'', ''heartbeat''] None
     = (Raised JSONDecodeError, [Recv ''junk''])
   \<and> length (filter is_dispatch
        (snd (dispatch_loop demo_json demo_client [''junk'', ''heartbeat''] None)))
       \<noteq> length [''junk'', ''heartbeat'']"
  by (simp add: demo_json_def)

text \<open>
  C7. When the session reaches a frame that does not parse, \<^verbatim>\<open>connect_order_update\<close>
  raises \<^verbatim>\<open>JSONDecodeError\<close>, which is not one of the errors of the transport. The loop
  ends there: the result and the events do not depend on the frames that follow or on
  how the stream would have ended, and the frames taken are those before the malformed
  one and that one.
\<close>

theorem malformed_frame_ends_loop:
  assumes "connect_result net = None" and "send_result net = None"
    and "frames net = pre @ m # post"
    and "\<forall>x\<in>set pre. frame_ok js self x"
    and "loads js m = None"
  shows "connect_order_update js self net =
           (Raised JSONDecodeError,
            Opened (order_feed_wss self) # Send (dumps js (auth_message self))
              # Printed (SentSubscribe (auth_message self))
              # concat (map (frame_events js self) pre) @ [Recv m, Closed])
     \<and> \<not> is_transport_error JSONDecodeError
     \<and> filter is_Recv (snd (connect_order_update js self net)) = map Recv pre @ [Recv m]"
proof -
  have loop: "dispatch_loop js self (frames net) (stream_end net) =
      (Raised JSONDecodeError, concat (map (frame_events js self) pre) @ [Recv m])"
    using assms(3-5) dispatch_loop_malformed by simp
  have run: "connect_order_update js self net =
           (Raised JSONDecodeError,
            Opened (order_feed_wss self) # Send (dumps js (auth_message self))
              # Printed (SentSubscribe (auth_message self))
              # concat (map (frame_events js self) pre) @ [Recv m, Closed])"
    using assms(1,2) loop by (simp add: connect_order_update_def session_body_def)
  have recv: "filter is_Recv (concat (map (frame_events js self) pre)) = map Recv pre"
    by (induction pre) (simp_all add: frame_events_recv)
  show ?thesis using run recv by simp
qed

theorem malformed_frame_ends_loop_witness:
  "loads demo_json ''junk'' = None
   \<and> fst (connect_order_update demo_json demo_client demo_broken) = Raised JSONDecodeError
   \<and> filter is_Recv (snd (connect_order_update demo_json demo_client demo_broken))
       = [Recv ''heartbeat'', Recv ''junk'']"
proof -
  have c: "connect_result demo_broken = None" and s: "send_result demo_broken = None"
    and f: "frames demo_broken = [''heartbeat''] @ ''junk'' # [''traded'']"
    by (simp_all add: demo_broken_def)
  have ok: "\<forall>x\<in>set [''heartbeat'']. frame_ok demo_json demo_client x"
    by (simp add: frame_ok_def demo_json_def demo_heartbeat_def handle_order_update_def)
  have l: "loads demo_json ''junk'' = None"
    by (simp add: demo_json_def)
  show ?thesis using l malformed_frame_ends_loop [OF c s f ok l]
    by (simp add: frame_events_recv)
qed

text \<open>
  C8. Whatever the network does and however the session ends (the stream closes, a
  frame does not parse, the dispatcher or the handler raises, the transport fails, the
  task is cancelled), the connection is not open when \<^verbatim>\<open>connect_order_update\<close> is left.
  When the connection was opened, the events start with the opening and end with the
  closing, and neither occurs in between.
\<close>

theorem connection_closed_on_every_exit:
  "connection_open (snd (connect_order_update js self net)) False = False
   \<and> (connect_result net = None \<longrightarrow>
        (\<exists>mid. snd (connect_order_update js self net)
                 = Opened (order_feed_wss self) # mid @ [Closed]
             \<and> (\<forall>ev\<in>set mid. ev \<noteq> Closed \<and> (\<forall>u. ev \<noteq> Opened u))))"
proof (cases "connect_result net")
  case (Some e)
  then show ?thesis by (simp add: connect_order_update_def)
next
  case None
  from connect_order_update_events [OF None, of js self] obtain rest where
    r: "snd (connect_order_update js self net)
          = Opened (order_feed_wss self) # Send (dumps js (auth_message self)) # rest @ [Closed]"
    and k: "\<forall>ev\<in>set rest. \<not> is_Send ev \<and> ev \<noteq> Closed \<and> (\<forall>u. ev \<noteq> Opened u)"
    by blast
  let ?mid = "Send (dumps js (auth_message self)) # rest"
  have mid: "\<forall>ev\<in>set ?mid. ev \<noteq> Closed \<and> (\<forall>u. ev \<noteq> Opened u)"
    using k by simp
  have "connection_open (?mid @ [Closed]) True = connection_open [Closed] True"
    using mid by (rule connection_open_inner)
  then have "connection_open (snd (connect_order_update js self net)) False = False"
    using r by simp
  moreover have "snd (connect_order_update js self net)
                   = Opened (order_feed_wss self) # ?mid @ [Closed]"
    using r by simp
  ultimately show ?thesis using mid by blast
qed

theorem connection_closed_on_every_exit_witness:
  "connect_result demo_cancelled = None
   \<and> connection_open
        (snd (connect_order_update demo_json demo_client demo_cancelled)) False = False"
proof -
  have c: "connect_result demo_cancelled = None"
    by (simp add: demo_cancelled_def)
  show ?thesis
    using c connection_closed_on_every_exit [of demo_json demo_client demo_cancelled]
    by blast
qed

end
